theory Spec2Isabelle
  imports Complex_Main
begin

section \<open>Enumerations of \<open>awsmfunc/types/placebo.py\<close>\<close>

text \<open>
  Every \<open>IntEnum\<close> of the module is a datatype together with the function giving the
  integer each member carries. Members of different enumerations that share a name in
  Python (\<open>Clip\<close>, \<open>Linear\<close>, \<open>Auto\<close>, \<open>HDR10\<close>) get the enumeration as a prefix.
\<close>

datatype PlaceboColorSpace = SDR | HDR10 | HLG | DOVI

fun PlaceboColorSpace_value :: "PlaceboColorSpace \<Rightarrow> int" where
  "PlaceboColorSpace_value SDR = 0"
| "PlaceboColorSpace_value HDR10 = 1"
| "PlaceboColorSpace_value HLG = 2"
| "PlaceboColorSpace_value DOVI = 3"

datatype PlaceboTonemapFunction =
    Fn_Auto | Fn_Clip | Fn_ST2094_40 | Fn_ST2094_10 | Fn_BT2390 | Fn_BT2446a
  | Fn_Spline | Fn_Reinhard | Fn_Mobius | Fn_Hable | Fn_Gamma | Fn_Linear

fun PlaceboTonemapFunction_value :: "PlaceboTonemapFunction \<Rightarrow> int" where
  "PlaceboTonemapFunction_value Fn_Auto = 0"
| "PlaceboTonemapFunction_value Fn_Clip = 1"
| "PlaceboTonemapFunction_value Fn_ST2094_40 = 2"
| "PlaceboTonemapFunction_value Fn_ST2094_10 = 3"
| "PlaceboTonemapFunction_value Fn_BT2390 = 4"
| "PlaceboTonemapFunction_value Fn_BT2446a = 5"
| "PlaceboTonemapFunction_value Fn_Spline = 6"
| "PlaceboTonemapFunction_value Fn_Reinhard = 7"
| "PlaceboTonemapFunction_value Fn_Mobius = 8"
| "PlaceboTonemapFunction_value Fn_Hable = 9"
| "PlaceboTonemapFunction_value Fn_Gamma = 10"
| "PlaceboTonemapFunction_value Fn_Linear = 11"

text \<open>\<open>PlaceboTonemapFunctionName\<close> is a \<open>str\<close> enumeration: its members carry strings.\<close>

datatype PlaceboTonemapFunctionName =
    Name_Auto | Name_Clip | Name_ST2094_40 | Name_ST2094_10 | Name_BT2390 | Name_BT2446a
  | Name_Spline | Name_Reinhard | Name_Mobius | Name_Hable | Name_Gamma | Name_Linear

fun PlaceboTonemapFunctionName_value :: "PlaceboTonemapFunctionName \<Rightarrow> string" where
  "PlaceboTonemapFunctionName_value Name_Auto = ''auto''"
| "PlaceboTonemapFunctionName_value Name_Clip = ''clip''"
| "PlaceboTonemapFunctionName_value Name_ST2094_40 = ''st2094-40''"
| "PlaceboTonemapFunctionName_value Name_ST2094_10 = ''st2094-10''"
| "PlaceboTonemapFunctionName_value Name_BT2390 = ''bt2390''"
| "PlaceboTonemapFunctionName_value Name_BT2446a = ''bt2446a''"
| "PlaceboTonemapFunctionName_value Name_Spline = ''spline''"
| "PlaceboTonemapFunctionName_value Name_Reinhard = ''reinhard''"
| "PlaceboTonemapFunctionName_value Name_Mobius = ''mobius''"
| "PlaceboTonemapFunctionName_value Name_Hable = ''hable''"
| "PlaceboTonemapFunctionName_value Name_Gamma = ''gamma''"
| "PlaceboTonemapFunctionName_value Name_Linear = ''linear''"

datatype PlaceboGamutMapping =
    Gamut_Clip | Gamut_Perceptual | Gamut_Softclip | Gamut_Relative | Gamut_Saturation
  | Gamut_Absolute | Gamut_Desaturate | Gamut_Darken | Gamut_Highlight | Gamut_Linear

fun PlaceboGamutMapping_value :: "PlaceboGamutMapping \<Rightarrow> int" where
  "PlaceboGamutMapping_value Gamut_Clip = 0"
| "PlaceboGamutMapping_value Gamut_Perceptual = 1"
| "PlaceboGamutMapping_value Gamut_Softclip = 2"
| "PlaceboGamutMapping_value Gamut_Relative = 3"
| "PlaceboGamutMapping_value Gamut_Saturation = 4"
| "PlaceboGamutMapping_value Gamut_Absolute = 5"
| "PlaceboGamutMapping_value Gamut_Desaturate = 6"
| "PlaceboGamutMapping_value Gamut_Darken = 7"
| "PlaceboGamutMapping_value Gamut_Highlight = 8"
| "PlaceboGamutMapping_value Gamut_Linear = 9"

datatype PlaceboHdrMetadataType =
    Meta_Any | Meta_PlNone | Meta_HDR10 | Meta_HDR10Plus | Meta_CIE_Y

fun PlaceboHdrMetadataType_value :: "PlaceboHdrMetadataType \<Rightarrow> int" where
  "PlaceboHdrMetadataType_value Meta_Any = 0"
| "PlaceboHdrMetadataType_value Meta_PlNone = 1"
| "PlaceboHdrMetadataType_value Meta_HDR10 = 2"
| "PlaceboHdrMetadataType_value Meta_HDR10Plus = 3"
| "PlaceboHdrMetadataType_value Meta_CIE_Y = 4"

section \<open>Python values held by the options\<close>

text \<open>
  A field annotated \<open>float\<close> holds whatever number it was given: the literal \<open>203.0\<close> is
  a float, the literal \<open>0\<close> written by \<open>with_static_peak_detect\<close> is an int. \<open>pynum\<close>
  keeps the two apart. A float is represented by the real number it denotes; the module
  does one float operation only, the division \<open>203.0 / 1000\<close> of the class body, whose
  operands are exact and whose correctly rounded quotient is the float that the literal
  \<open>0.203\<close> denotes, so the division is written as the exact one. Every other number is
  stored and handed on as it came.
\<close>

datatype pynum = PyInt int | PyFloat real

text \<open>
  The objects that can sit in the dictionary returned by \<open>vsplacebo_dict\<close>. Python's
  \<open>None\<close> is not among them: a value that may be \<open>None\<close> has type \<open>pyval option\<close>.
\<close>

datatype pyval =
    VColorSpace PlaceboColorSpace
  | VNum pynum
  | VBool bool
  | VGamutMapping PlaceboGamutMapping
  | VTonemapFunction PlaceboTonemapFunction
  | VTonemapFunctionName PlaceboTonemapFunctionName
  | VHdrMetadataType PlaceboHdrMetadataType

section \<open>The named tuple \<open>PlaceboTonemapOpts\<close>\<close>

text \<open>
  One record field per tuple field, in the order of the class body. A field annotated
  \<open>Optional[T]\<close> is a \<open>T option\<close> with \<open>None\<close> for Python's \<open>None\<close>.
\<close>

record PlaceboTonemapOpts =
  source_colorspace :: PlaceboColorSpace
  target_colorspace :: PlaceboColorSpace
  target_primaries :: "int option"
  dst_max :: pynum
  dst_min :: pynum
  peak_detect :: bool
  gamut_mapping :: "PlaceboGamutMapping option"
  tone_map_function :: "PlaceboTonemapFunction option"
  tone_map_function_s :: "PlaceboTonemapFunctionName option"
  tone_map_param :: "pynum option"
  contrast_recovery :: "pynum option"
  hdr_metadata_type :: "PlaceboHdrMetadataType option"
  use_dovi :: "bool option"
  smoothing_period :: "pynum option"
  scene_threshold_low :: "pynum option"
  scene_threshold_high :: "pynum option"
  percentile :: "pynum option"
  show_clipping :: "bool option"
  visualize_lut :: "bool option"
  use_planestats :: bool

text \<open>
  The arguments of a constructor call \<open>PlaceboTonemapOpts(...)\<close>: every parameter has a
  default, so each one is either left out (\<open>None\<close> here) or supplied.
\<close>

record PlaceboTonemapOpts_args =
  arg_source_colorspace :: "PlaceboColorSpace option"
  arg_target_colorspace :: "PlaceboColorSpace option"
  arg_target_primaries :: "int option"
  arg_dst_max :: "pynum option"
  arg_dst_min :: "pynum option"
  arg_peak_detect :: "bool option"
  arg_gamut_mapping :: "PlaceboGamutMapping option"
  arg_tone_map_function :: "PlaceboTonemapFunction option"
  arg_tone_map_function_s :: "PlaceboTonemapFunctionName option"
  arg_tone_map_param :: "pynum option"
  arg_contrast_recovery :: "pynum option"
  arg_hdr_metadata_type :: "PlaceboHdrMetadataType option"
  arg_use_dovi :: "bool option"
  arg_smoothing_period :: "pynum option"
  arg_scene_threshold_low :: "pynum option"
  arg_scene_threshold_high :: "pynum option"
  arg_percentile :: "pynum option"
  arg_show_clipping :: "bool option"
  arg_visualize_lut :: "bool option"
  arg_use_planestats :: "bool option"

definition no_args :: PlaceboTonemapOpts_args where
  "no_args = \<lparr>
     arg_source_colorspace = None, arg_target_colorspace = None,
     arg_target_primaries = None, arg_dst_max = None, arg_dst_min = None,
     arg_peak_detect = None, arg_gamut_mapping = None, arg_tone_map_function = None,
     arg_tone_map_function_s = None, arg_tone_map_param = None,
     arg_contrast_recovery = None, arg_hdr_metadata_type = None, arg_use_dovi = None,
     arg_smoothing_period = None, arg_scene_threshold_low = None,
     arg_scene_threshold_high = None, arg_percentile = None, arg_show_clipping = None,
     arg_visualize_lut = None, arg_use_planestats = None \<rparr>"

text \<open>
  The defaults are the values the class body computes once, when the class is created:
  \<open>dst_max: float = 203.0\<close> binds the name \<open>dst_max\<close> of the class body, and
  \<open>dst_min: float = dst_max / 1000\<close> divides that binding.
\<close>

definition default_dst_max :: real where
  "default_dst_max = 203"

definition default_dst_min :: real where
  "default_dst_min = default_dst_max / 1000"

definition PlaceboTonemapOpts_new :: "PlaceboTonemapOpts_args \<Rightarrow> PlaceboTonemapOpts" where
  "PlaceboTonemapOpts_new a = \<lparr>
     source_colorspace = (case arg_source_colorspace a of None \<Rightarrow> HDR10 | Some c \<Rightarrow> c),
     target_colorspace = (case arg_target_colorspace a of None \<Rightarrow> SDR | Some c \<Rightarrow> c),
     target_primaries = arg_target_primaries a,
     dst_max = (case arg_dst_max a of None \<Rightarrow> PyFloat default_dst_max | Some x \<Rightarrow> x),
     dst_min = (case arg_dst_min a of None \<Rightarrow> PyFloat default_dst_min | Some x \<Rightarrow> x),
     peak_detect = (case arg_peak_detect a of None \<Rightarrow> True | Some p \<Rightarrow> p),
     gamut_mapping = arg_gamut_mapping a,
     tone_map_function = arg_tone_map_function a,
     tone_map_function_s = arg_tone_map_function_s a,
     tone_map_param = arg_tone_map_param a,
     contrast_recovery = arg_contrast_recovery a,
     hdr_metadata_type = arg_hdr_metadata_type a,
     use_dovi = arg_use_dovi a,
     smoothing_period = arg_smoothing_period a,
     scene_threshold_low = arg_scene_threshold_low a,
     scene_threshold_high = arg_scene_threshold_high a,
     percentile = arg_percentile a,
     show_clipping = arg_show_clipping a,
     visualize_lut = arg_visualize_lut a,
     use_planestats = (case arg_use_planestats a of None \<Rightarrow> True | Some p \<Rightarrow> p) \<rparr>"

section \<open>The methods\<close>

text \<open>\<open>self._replace(smoothing_period=0, scene_threshold_low=0, scene_threshold_high=0)\<close>\<close>

definition with_static_peak_detect :: "PlaceboTonemapOpts \<Rightarrow> PlaceboTonemapOpts" where
  "with_static_peak_detect self =
     self\<lparr> smoothing_period := Some (PyInt 0),
           scene_threshold_low := Some (PyInt 0),
           scene_threshold_high := Some (PyInt 0) \<rparr>"

text \<open>
  The dictionary literal \<open>all_args\<close> of \<open>vsplacebo_dict\<close>, as the list of its items in
  insertion order; a value is \<open>None\<close> where the Python value is \<open>None\<close>.
\<close>

definition all_args :: "PlaceboTonemapOpts \<Rightarrow> (string \<times> pyval option) list" where
  "all_args self =
     [ (''src_csp'', Some (VColorSpace (source_colorspace self))),
       (''dst_csp'', Some (VColorSpace (target_colorspace self))),
       (''dst_prim'', map_option (\<lambda>n. VNum (PyInt n)) (target_primaries self)),
       (''dst_max'', Some (VNum (dst_max self))),
       (''dst_min'', Some (VNum (dst_min self))),
       (''dynamic_peak_detection'', Some (VBool (peak_detect self))),
       (''gamut_mapping'', map_option VGamutMapping (gamut_mapping self)),
       (''tone_mapping_function'', map_option VTonemapFunction (tone_map_function self)),
       (''tone_mapping_function_s'',
          map_option VTonemapFunctionName (tone_map_function_s self)),
       (''tone_mapping_param'', map_option VNum (tone_map_param self)),
       (''use_dovi'', map_option VBool (use_dovi self)),
       (''smoothing_period'', map_option VNum (smoothing_period self)),
       (''scene_threshold_low'', map_option VNum (scene_threshold_low self)),
       (''scene_threshold_high'', map_option VNum (scene_threshold_high self)),
       (''show_clipping'', map_option VBool (show_clipping self)),
       (''percentile'', map_option VNum (percentile self)),
       (''metadata'', map_option VHdrMetadataType (hdr_metadata_type self)),
       (''visualize_lut'', map_option VBool (visualize_lut self)),
       (''contrast_recovery'', map_option VNum (contrast_recovery self)) ]"

text \<open>\<open>{k: v for k, v in items if v is not None}\<close>, keeping the order of the items.\<close>

fun not_none_items :: "('k \<times> 'v option) list \<Rightarrow> ('k \<times> 'v) list" where
  "not_none_items [] = []"
| "not_none_items ((k, None) # kvs) = not_none_items kvs"
| "not_none_items ((k, Some v) # kvs) = (k, v) # not_none_items kvs"

definition vsplacebo_dict :: "PlaceboTonemapOpts \<Rightarrow> (string \<times> pyval) list" where
  "vsplacebo_dict self = not_none_items (all_args self)"

text \<open>
  The three predicates compare with \<open>==\<close>, which on \<open>IntEnum\<close> members compares the
  integers they carry.
\<close>

definition is_dovi_src :: "PlaceboTonemapOpts \<Rightarrow> bool" where
  "is_dovi_src self =
     (PlaceboColorSpace_value (source_colorspace self) = PlaceboColorSpace_value DOVI)"

definition is_hdr10_src :: "PlaceboTonemapOpts \<Rightarrow> bool" where
  "is_hdr10_src self =
     (PlaceboColorSpace_value (source_colorspace self) = PlaceboColorSpace_value HDR10)"

definition is_sdr_target :: "PlaceboTonemapOpts \<Rightarrow> bool" where
  "is_sdr_target self =
     (PlaceboColorSpace_value (target_colorspace self) = PlaceboColorSpace_value SDR)"

section \<open>Fields and their external keys\<close>

text \<open>The names of the tuple's fields (\<open>PlaceboTonemapOpts._fields\<close>).\<close>

datatype field =
    F_source_colorspace | F_target_colorspace | F_target_primaries | F_dst_max | F_dst_min
  | F_peak_detect | F_gamut_mapping | F_tone_map_function | F_tone_map_function_s
  | F_tone_map_param | F_contrast_recovery | F_hdr_metadata_type | F_use_dovi
  | F_smoothing_period | F_scene_threshold_low | F_scene_threshold_high | F_percentile
  | F_show_clipping | F_visualize_lut | F_use_planestats

text \<open>
  \<open>getattr(self, name)\<close> as a dictionary value: \<open>None\<close> where the attribute is
  \<open>None\<close>.
\<close>

primrec field_value :: "PlaceboTonemapOpts \<Rightarrow> field \<Rightarrow> pyval option" where
  "field_value self F_source_colorspace = Some (VColorSpace (source_colorspace self))"
| "field_value self F_target_colorspace = Some (VColorSpace (target_colorspace self))"
| "field_value self F_target_primaries =
     map_option (\<lambda>n. VNum (PyInt n)) (target_primaries self)"
| "field_value self F_dst_max = Some (VNum (dst_max self))"
| "field_value self F_dst_min = Some (VNum (dst_min self))"
| "field_value self F_peak_detect = Some (VBool (peak_detect self))"
| "field_value self F_gamut_mapping = map_option VGamutMapping (gamut_mapping self)"
| "field_value self F_tone_map_function =
     map_option VTonemapFunction (tone_map_function self)"
| "field_value self F_tone_map_function_s =
     map_option VTonemapFunctionName (tone_map_function_s self)"
| "field_value self F_tone_map_param = map_option VNum (tone_map_param self)"
| "field_value self F_contrast_recovery = map_option VNum (contrast_recovery self)"
| "field_value self F_hdr_metadata_type =
     map_option VHdrMetadataType (hdr_metadata_type self)"
| "field_value self F_use_dovi = map_option VBool (use_dovi self)"
| "field_value self F_smoothing_period = map_option VNum (smoothing_period self)"
| "field_value self F_scene_threshold_low = map_option VNum (scene_threshold_low self)"
| "field_value self F_scene_threshold_high = map_option VNum (scene_threshold_high self)"
| "field_value self F_percentile = map_option VNum (percentile self)"
| "field_value self F_show_clipping = map_option VBool (show_clipping self)"
| "field_value self F_visualize_lut = map_option VBool (visualize_lut self)"
| "field_value self F_use_planestats = Some (VBool (use_planestats self))"

text \<open>
  The key the specification documents for each field: eight fields are renamed, every
  other field stands under its own name.
\<close>

primrec external_key :: "field \<Rightarrow> string" where
  "external_key F_source_colorspace = ''src_csp''"
| "external_key F_target_colorspace = ''dst_csp''"
| "external_key F_target_primaries = ''dst_prim''"
| "external_key F_peak_detect = ''dynamic_peak_detection''"
| "external_key F_tone_map_function = ''tone_mapping_function''"
| "external_key F_tone_map_function_s = ''tone_mapping_function_s''"
| "external_key F_tone_map_param = ''tone_mapping_param''"
| "external_key F_hdr_metadata_type = ''metadata''"
| "external_key F_dst_max = ''dst_max''"
| "external_key F_dst_min = ''dst_min''"
| "external_key F_gamut_mapping = ''gamut_mapping''"
| "external_key F_contrast_recovery = ''contrast_recovery''"
| "external_key F_use_dovi = ''use_dovi''"
| "external_key F_smoothing_period = ''smoothing_period''"
| "external_key F_scene_threshold_low = ''scene_threshold_low''"
| "external_key F_scene_threshold_high = ''scene_threshold_high''"
| "external_key F_percentile = ''percentile''"
| "external_key F_show_clipping = ''show_clipping''"
| "external_key F_visualize_lut = ''visualize_lut''"
| "external_key F_use_planestats = ''use_planestats''"

text \<open>The fields read by the dictionary literal of \<open>vsplacebo_dict\<close>, in its order.\<close>

definition emitted_fields :: "field list" where
  "emitted_fields =
     [F_source_colorspace, F_target_colorspace, F_target_primaries, F_dst_max, F_dst_min,
      F_peak_detect, F_gamut_mapping, F_tone_map_function, F_tone_map_function_s,
      F_tone_map_param, F_use_dovi, F_smoothing_period, F_scene_threshold_low,
      F_scene_threshold_high, F_show_clipping, F_percentile, F_hdr_metadata_type,
      F_visualize_lut, F_contrast_recovery]"

section \<open>Lookup in the filtered dictionary\<close>

lemma keys_not_none_items: "fst ` set (not_none_items kvs) \<subseteq> fst ` set kvs"
  by (induction kvs rule: not_none_items.induct) auto

lemma map_of_not_none_items_absent:
  "k \<notin> fst ` set kvs \<Longrightarrow> map_of (not_none_items kvs) k = None"
  using keys_not_none_items [of kvs] by (auto simp: map_of_eq_None_iff)

text \<open>
  With pairwise different keys, looking a key up after the filter is looking it up
  before and treating a \<open>None\<close> value as absence.
\<close>

lemma map_of_not_none_items:
  "distinct (map fst kvs) \<Longrightarrow>
   map_of (not_none_items kvs) k = (case map_of kvs k of None \<Rightarrow> None | Some v \<Rightarrow> v)"
proof (induction kvs rule: not_none_items.induct)
  case 1
  then show ?case by simp
next
  case (2 k' kvs)
  then have absent: "k' \<notin> fst ` set kvs" and rest: "distinct (map fst kvs)"
    by simp_all
  from absent have "map_of kvs k' = None"
    by (simp add: map_of_eq_None_iff)
  with 2 absent rest show ?case
    by (simp add: map_of_not_none_items_absent)
next
  case (3 k' v kvs)
  then show ?case by simp
qed

lemma distinct_not_none_items:
  "distinct (map fst kvs) \<Longrightarrow> distinct (map fst (not_none_items kvs))"
proof (induction kvs rule: not_none_items.induct)
  case (3 k v kvs)
  then show ?case using keys_not_none_items [of kvs] by auto
qed simp_all

lemma all_args_keys:
  "map fst (all_args b) =
     [''src_csp'', ''dst_csp'', ''dst_prim'', ''dst_max'', ''dst_min'',
      ''dynamic_peak_detection'', ''gamut_mapping'', ''tone_mapping_function'',
      ''tone_mapping_function_s'', ''tone_mapping_param'', ''use_dovi'',
      ''smoothing_period'', ''scene_threshold_low'', ''scene_threshold_high'',
      ''show_clipping'', ''percentile'', ''metadata'', ''visualize_lut'',
      ''contrast_recovery'']"
  by (simp add: all_args_def)

lemma all_args_keys_fields: "map fst (all_args b) = map external_key emitted_fields"
  by (simp add: all_args_def emitted_fields_def)

lemma distinct_all_args: "distinct (map fst (all_args b))"
  by (simp add: all_args_def)

lemma vsplacebo_dict_keys: "fst ` set (vsplacebo_dict b) \<subseteq> set (map fst (all_args b))"
  unfolding vsplacebo_dict_def using keys_not_none_items [of "all_args b"] by simp

lemma vsplacebo_dict_lookup:
  "map_of (vsplacebo_dict b) k =
     (case map_of (all_args b) k of None \<Rightarrow> None | Some v \<Rightarrow> v)"
  unfolding vsplacebo_dict_def by (rule map_of_not_none_items [OF distinct_all_args])

text \<open>The constructor stores an \<open>Optional\<close> argument as it is given.\<close>

lemma PlaceboTonemapOpts_new_optional:
  "target_primaries (PlaceboTonemapOpts_new a) = arg_target_primaries a"
  "gamut_mapping (PlaceboTonemapOpts_new a) = arg_gamut_mapping a"
  "tone_map_function (PlaceboTonemapOpts_new a) = arg_tone_map_function a"
  "tone_map_function_s (PlaceboTonemapOpts_new a) = arg_tone_map_function_s a"
  "tone_map_param (PlaceboTonemapOpts_new a) = arg_tone_map_param a"
  "contrast_recovery (PlaceboTonemapOpts_new a) = arg_contrast_recovery a"
  "hdr_metadata_type (PlaceboTonemapOpts_new a) = arg_hdr_metadata_type a"
  "use_dovi (PlaceboTonemapOpts_new a) = arg_use_dovi a"
  "smoothing_period (PlaceboTonemapOpts_new a) = arg_smoothing_period a"
  "scene_threshold_low (PlaceboTonemapOpts_new a) = arg_scene_threshold_low a"
  "scene_threshold_high (PlaceboTonemapOpts_new a) = arg_scene_threshold_high a"
  "percentile (PlaceboTonemapOpts_new a) = arg_percentile a"
  "show_clipping (PlaceboTonemapOpts_new a) = arg_show_clipping a"
  "visualize_lut (PlaceboTonemapOpts_new a) = arg_visualize_lut a"
  by (simp_all add: PlaceboTonemapOpts_new_def)

section \<open>Construction and defaults\<close>

text \<open>
  C1: the default of \<open>dst_min\<close> is meant to follow \<open>dst_max\<close> at a contrast of 1000:1.
  The code computes it once from the default \<open>dst_max\<close>: constructing with
  \<open>dst_max = 1000.0\<close> and no \<open>dst_min\<close> stores \<open>dst_max = 1000.0\<close> and
  \<open>dst_min = 0.203\<close>, which is not \<open>1000.0 / 1000\<close>.
\<close>

theorem dst_min_default_fixed_at_class_creation:
  "dst_max (PlaceboTonemapOpts_new (no_args\<lparr>arg_dst_max := Some (PyFloat 1000)\<rparr>))
     = PyFloat 1000
   \<and> dst_min (PlaceboTonemapOpts_new (no_args\<lparr>arg_dst_max := Some (PyFloat 1000)\<rparr>))
     = PyFloat 0.203
   \<and> dst_min (PlaceboTonemapOpts_new (no_args\<lparr>arg_dst_max := Some (PyFloat 1000)\<rparr>))
     \<noteq> PyFloat (1000 / 1000)"
  by (simp add: PlaceboTonemapOpts_new_def no_args_def default_dst_min_def
      default_dst_max_def)

text \<open>
  C2: \<open>vsplacebo_dict\<close> of the options constructed with no argument is exactly
  \<open>{src_csp: HDR10, dst_csp: SDR, dst_max: 203.0, dst_min: 0.203,
  dynamic_peak_detection: True}\<close>, in this order and with no other key, where \<open>HDR10\<close>
  carries 1 and \<open>SDR\<close> carries 0.
\<close>

theorem vsplacebo_dict_default:
  "vsplacebo_dict (PlaceboTonemapOpts_new no_args) =
     [ (''src_csp'', VColorSpace HDR10),
       (''dst_csp'', VColorSpace SDR),
       (''dst_max'', VNum (PyFloat 203.0)),
       (''dst_min'', VNum (PyFloat 0.203)),
       (''dynamic_peak_detection'', VBool True) ]
   \<and> PlaceboColorSpace_value HDR10 = 1 \<and> PlaceboColorSpace_value SDR = 0"
  by (simp add: vsplacebo_dict_def all_args_def PlaceboTonemapOpts_new_def no_args_def
      default_dst_max_def default_dst_min_def)

text \<open>
  C6: round trip. For each of the fourteen \<open>Optional\<close> fields and every value of its
  type, a constructor call that supplies the value (whatever else it supplies) yields
  options whose field reads back as that value, and whose \<open>vsplacebo_dict\<close> holds the
  value under the field's documented key.
\<close>

theorem optional_field_roundtrip:
  "target_primaries (PlaceboTonemapOpts_new (a\<lparr>arg_target_primaries := Some n\<rparr>)) = Some n
   \<and> map_of (vsplacebo_dict (PlaceboTonemapOpts_new (a\<lparr>arg_target_primaries := Some n\<rparr>)))
        ''dst_prim'' = Some (VNum (PyInt n))
   \<and> gamut_mapping (PlaceboTonemapOpts_new (a\<lparr>arg_gamut_mapping := Some g\<rparr>)) = Some g
   \<and> map_of (vsplacebo_dict (PlaceboTonemapOpts_new (a\<lparr>arg_gamut_mapping := Some g\<rparr>)))
        ''gamut_mapping'' = Some (VGamutMapping g)
   \<and> tone_map_function (PlaceboTonemapOpts_new (a\<lparr>arg_tone_map_function := Some t\<rparr>)) = Some t
   \<and> map_of (vsplacebo_dict (PlaceboTonemapOpts_new (a\<lparr>arg_tone_map_function := Some t\<rparr>)))
        ''tone_mapping_function'' = Some (VTonemapFunction t)
   \<and> tone_map_function_s (PlaceboTonemapOpts_new (a\<lparr>arg_tone_map_function_s := Some s\<rparr>)) = Some s
   \<and> map_of (vsplacebo_dict (PlaceboTonemapOpts_new (a\<lparr>arg_tone_map_function_s := Some s\<rparr>)))
        ''tone_mapping_function_s'' = Some (VTonemapFunctionName s)
   \<and> tone_map_param (PlaceboTonemapOpts_new (a\<lparr>arg_tone_map_param := Some p\<rparr>)) = Some p
   \<and> map_of (vsplacebo_dict (PlaceboTonemapOpts_new (a\<lparr>arg_tone_map_param := Some p\<rparr>)))
        ''tone_mapping_param'' = Some (VNum p)
   \<and> contrast_recovery (PlaceboTonemapOpts_new (a\<lparr>arg_contrast_recovery := Some c\<rparr>)) = Some c
   \<and> map_of (vsplacebo_dict (PlaceboTonemapOpts_new (a\<lparr>arg_contrast_recovery := Some c\<rparr>)))
        ''contrast_recovery'' = Some (VNum c)
   \<and> hdr_metadata_type (PlaceboTonemapOpts_new (a\<lparr>arg_hdr_metadata_type := Some m\<rparr>)) = Some m
   \<and> map_of (vsplacebo_dict (PlaceboTonemapOpts_new (a\<lparr>arg_hdr_metadata_type := Some m\<rparr>)))
        ''metadata'' = Some (VHdrMetadataType m)
   \<and> use_dovi (PlaceboTonemapOpts_new (a\<lparr>arg_use_dovi := Some d\<rparr>)) = Some d
   \<and> map_of (vsplacebo_dict (PlaceboTonemapOpts_new (a\<lparr>arg_use_dovi := Some d\<rparr>)))
        ''use_dovi'' = Some (VBool d)
   \<and> smoothing_period (PlaceboTonemapOpts_new (a\<lparr>arg_smoothing_period := Some sp\<rparr>)) = Some sp
   \<and> map_of (vsplacebo_dict (PlaceboTonemapOpts_new (a\<lparr>arg_smoothing_period := Some sp\<rparr>)))
        ''smoothing_period'' = Some (VNum sp)
   \<and> scene_threshold_low (PlaceboTonemapOpts_new (a\<lparr>arg_scene_threshold_low := Some lo\<rparr>)) = Some lo
   \<and> map_of (vsplacebo_dict (PlaceboTonemapOpts_new (a\<lparr>arg_scene_threshold_low := Some lo\<rparr>)))
        ''scene_threshold_low'' = Some (VNum lo)
   \<and> scene_threshold_high (PlaceboTonemapOpts_new (a\<lparr>arg_scene_threshold_high := Some hi\<rparr>)) = Some hi
   \<and> map_of (vsplacebo_dict (PlaceboTonemapOpts_new (a\<lparr>arg_scene_threshold_high := Some hi\<rparr>)))
        ''scene_threshold_high'' = Some (VNum hi)
   \<and> percentile (PlaceboTonemapOpts_new (a\<lparr>arg_percentile := Some pc\<rparr>)) = Some pc
   \<and> map_of (vsplacebo_dict (PlaceboTonemapOpts_new (a\<lparr>arg_percentile := Some pc\<rparr>)))
        ''percentile'' = Some (VNum pc)
   \<and> show_clipping (PlaceboTonemapOpts_new (a\<lparr>arg_show_clipping := Some sc\<rparr>)) = Some sc
   \<and> map_of (vsplacebo_dict (PlaceboTonemapOpts_new (a\<lparr>arg_show_clipping := Some sc\<rparr>)))
        ''show_clipping'' = Some (VBool sc)
   \<and> visualize_lut (PlaceboTonemapOpts_new (a\<lparr>arg_visualize_lut := Some vl\<rparr>)) = Some vl
   \<and> map_of (vsplacebo_dict (PlaceboTonemapOpts_new (a\<lparr>arg_visualize_lut := Some vl\<rparr>)))
        ''visualize_lut'' = Some (VBool vl)"
  by (simp add: vsplacebo_dict_lookup all_args_def PlaceboTonemapOpts_new_optional)

section \<open>Static peak detection\<close>

text \<open>
  C3: the result of \<open>with_static_peak_detect\<close> has \<open>smoothing_period\<close>,
  \<open>scene_threshold_low\<close> and \<open>scene_threshold_high\<close> equal to 0 and agrees with the
  receiver on each of the seventeen other fields. The receiver is a value: the result
  is a second tuple and nothing is written to the first.
\<close>

theorem with_static_peak_detect_fields:
  "smoothing_period (with_static_peak_detect b) = Some (PyInt 0)
   \<and> scene_threshold_low (with_static_peak_detect b) = Some (PyInt 0)
   \<and> scene_threshold_high (with_static_peak_detect b) = Some (PyInt 0)
   \<and> source_colorspace (with_static_peak_detect b) = source_colorspace b
   \<and> target_colorspace (with_static_peak_detect b) = target_colorspace b
   \<and> target_primaries (with_static_peak_detect b) = target_primaries b
   \<and> dst_max (with_static_peak_detect b) = dst_max b
   \<and> dst_min (with_static_peak_detect b) = dst_min b
   \<and> peak_detect (with_static_peak_detect b) = peak_detect b
   \<and> gamut_mapping (with_static_peak_detect b) = gamut_mapping b
   \<and> tone_map_function (with_static_peak_detect b) = tone_map_function b
   \<and> tone_map_function_s (with_static_peak_detect b) = tone_map_function_s b
   \<and> tone_map_param (with_static_peak_detect b) = tone_map_param b
   \<and> contrast_recovery (with_static_peak_detect b) = contrast_recovery b
   \<and> hdr_metadata_type (with_static_peak_detect b) = hdr_metadata_type b
   \<and> use_dovi (with_static_peak_detect b) = use_dovi b
   \<and> percentile (with_static_peak_detect b) = percentile b
   \<and> show_clipping (with_static_peak_detect b) = show_clipping b
   \<and> visualize_lut (with_static_peak_detect b) = visualize_lut b
   \<and> use_planestats (with_static_peak_detect b) = use_planestats b"
  by (simp add: with_static_peak_detect_def)

text \<open>
  C9: \<open>with_static_peak_detect\<close> is idempotent: applying it to its own result gives that
  result again.
\<close>

theorem with_static_peak_detect_idem:
  "with_static_peak_detect (with_static_peak_detect b) = with_static_peak_detect b"
  by (simp add: with_static_peak_detect_def)

text \<open>
  C10: \<open>vsplacebo_dict\<close> of \<open>with_static_peak_detect\<close> of any options holds the keys
  \<open>smoothing_period\<close>, \<open>scene_threshold_low\<close> and \<open>scene_threshold_high\<close>, each with
  the value 0, also when the receiver had them unset.
\<close>

theorem vsplacebo_dict_static_peak_detect:
  "map_of (vsplacebo_dict (with_static_peak_detect b)) ''smoothing_period''
     = Some (VNum (PyInt 0))
   \<and> map_of (vsplacebo_dict (with_static_peak_detect b)) ''scene_threshold_low''
     = Some (VNum (PyInt 0))
   \<and> map_of (vsplacebo_dict (with_static_peak_detect b)) ''scene_threshold_high''
     = Some (VNum (PyInt 0))"
  by (simp add: vsplacebo_dict_lookup all_args_def with_static_peak_detect_def)

section \<open>The filter parameters\<close>

text \<open>
  C4, as stated, asks of every field that it has an entry exactly when it is not
  \<open>None\<close>. \<open>use_planestats\<close> is a field, its default \<open>True\<close> is not \<open>None\<close>, and the
  dictionary of the default options has no entry under \<open>use_planestats\<close>.
\<close>

theorem use_planestats_set_but_not_emitted:
  "field_value (PlaceboTonemapOpts_new no_args) F_use_planestats = Some (VBool True)
   \<and> map_of (vsplacebo_dict (PlaceboTonemapOpts_new no_args))
        (external_key F_use_planestats) = None"
  by (simp add: vsplacebo_dict_lookup all_args_def PlaceboTonemapOpts_new_def no_args_def)

text \<open>
  C4, amended: for every field other than \<open>use_planestats\<close>, looking the field's
  external key up in \<open>vsplacebo_dict\<close> gives the field's value when it is not \<open>None\<close>
  and nothing when it is; and every key of the dictionary is the external key of a
  field other than \<open>use_planestats\<close>.
\<close>

theorem vsplacebo_dict_entry_iff_set:
  "(f \<noteq> F_use_planestats \<longrightarrow>
      map_of (vsplacebo_dict b) (external_key f) = field_value b f)
   \<and> (\<forall>k \<in> fst ` set (vsplacebo_dict b).
         \<exists>g. g \<noteq> F_use_planestats \<and> k = external_key g)"
proof
  show "f \<noteq> F_use_planestats \<longrightarrow>
      map_of (vsplacebo_dict b) (external_key f) = field_value b f"
    by (cases f) (simp_all add: vsplacebo_dict_lookup all_args_def)
next
  show "\<forall>k \<in> fst ` set (vsplacebo_dict b).
         \<exists>g. g \<noteq> F_use_planestats \<and> k = external_key g"
  proof
    fix k assume "k \<in> fst ` set (vsplacebo_dict b)"
    then have "k \<in> set (map external_key emitted_fields)"
      using vsplacebo_dict_keys [of b] unfolding all_args_keys_fields by blast
    then obtain g where g: "g \<in> set emitted_fields" and k: "k = external_key g"
      by auto
    from g have "g \<noteq> F_use_planestats"
      by (auto simp: emitted_fields_def)
    with k show "\<exists>g. g \<noteq> F_use_planestats \<and> k = external_key g"
      by blast
  qed
qed

theorem vsplacebo_dict_entry_iff_set_witness:
  "F_tone_map_param \<noteq> F_use_planestats
   \<and> map_of (vsplacebo_dict (PlaceboTonemapOpts_new
         (no_args\<lparr>arg_tone_map_param := Some (PyFloat 0.5)\<rparr>))) ''tone_mapping_param''
       = Some (VNum (PyFloat 0.5))
   \<and> ''src_csp'' \<in> fst ` set (vsplacebo_dict (PlaceboTonemapOpts_new
         (no_args\<lparr>arg_tone_map_param := Some (PyFloat 0.5)\<rparr>)))
   \<and> (\<exists>g. g \<noteq> F_use_planestats \<and> ''src_csp'' = external_key g)"
proof -
  let ?b = "PlaceboTonemapOpts_new (no_args\<lparr>arg_tone_map_param := Some (PyFloat 0.5)\<rparr>)"
  have v: "field_value ?b F_tone_map_param = Some (VNum (PyFloat 0.5))"
    by (simp add: PlaceboTonemapOpts_new_def no_args_def)
  have m: "''src_csp'' \<in> fst ` set (vsplacebo_dict ?b)"
    by (simp add: vsplacebo_dict_def all_args_def PlaceboTonemapOpts_new_def no_args_def)
  from vsplacebo_dict_entry_iff_set [of F_tone_map_param ?b] v m show ?thesis
    by auto
qed

text \<open>
  C7: whatever \<open>use_planestats\<close> is, \<open>vsplacebo_dict\<close> has no key \<open>use_planestats\<close>,
  and the dictionary does not depend on the field at all.
\<close>

theorem vsplacebo_dict_omits_use_planestats:
  "''use_planestats'' \<notin> fst ` set (vsplacebo_dict b)
   \<and> vsplacebo_dict (b\<lparr>use_planestats := u\<rparr>) = vsplacebo_dict b"
proof
  have "''use_planestats'' \<notin> set (map fst (all_args b))"
    unfolding all_args_keys by simp
  then show "''use_planestats'' \<notin> fst ` set (vsplacebo_dict b)"
    using vsplacebo_dict_keys [of b] by blast
next
  show "vsplacebo_dict (b\<lparr>use_planestats := u\<rparr>) = vsplacebo_dict b"
    by (simp add: vsplacebo_dict_def all_args_def)
qed

text \<open>
  C8: when \<open>tone_map_function\<close> and \<open>tone_map_function_s\<close> are both set, to any two
  values, \<open>vsplacebo_dict\<close> holds the first under \<open>tone_mapping_function\<close> and the
  second under \<open>tone_mapping_function_s\<close>; the two keys differ and no key of the
  dictionary occurs twice.
\<close>

theorem vsplacebo_dict_both_tone_map_forms:
  assumes "tone_map_function b = Some f" and "tone_map_function_s b = Some s"
  shows "map_of (vsplacebo_dict b) ''tone_mapping_function'' = Some (VTonemapFunction f)
     \<and> map_of (vsplacebo_dict b) ''tone_mapping_function_s''
         = Some (VTonemapFunctionName s)
     \<and> ''tone_mapping_function'' \<noteq> ''tone_mapping_function_s''
     \<and> distinct (map fst (vsplacebo_dict b))"
proof -
  have "map_of (vsplacebo_dict b) ''tone_mapping_function'' = Some (VTonemapFunction f)"
    using assms(1) by (simp add: vsplacebo_dict_lookup all_args_def)
  moreover have
    "map_of (vsplacebo_dict b) ''tone_mapping_function_s'' = Some (VTonemapFunctionName s)"
    using assms(2) by (simp add: vsplacebo_dict_lookup all_args_def)
  moreover have "distinct (map fst (vsplacebo_dict b))"
    unfolding vsplacebo_dict_def by (rule distinct_not_none_items [OF distinct_all_args])
  ultimately show ?thesis by simp
qed

theorem vsplacebo_dict_both_tone_map_forms_witness:
  "tone_map_function (PlaceboTonemapOpts_new
       (no_args\<lparr>arg_tone_map_function := Some Fn_Clip,
                arg_tone_map_function_s := Some Name_Hable\<rparr>)) = Some Fn_Clip
   \<and> tone_map_function_s (PlaceboTonemapOpts_new
       (no_args\<lparr>arg_tone_map_function := Some Fn_Clip,
                arg_tone_map_function_s := Some Name_Hable\<rparr>)) = Some Name_Hable
   \<and> map_of (vsplacebo_dict (PlaceboTonemapOpts_new
       (no_args\<lparr>arg_tone_map_function := Some Fn_Clip,
                arg_tone_map_function_s := Some Name_Hable\<rparr>))) ''tone_mapping_function''
       = Some (VTonemapFunction Fn_Clip)
   \<and> map_of (vsplacebo_dict (PlaceboTonemapOpts_new
       (no_args\<lparr>arg_tone_map_function := Some Fn_Clip,
                arg_tone_map_function_s := Some Name_Hable\<rparr>))) ''tone_mapping_function_s''
       = Some (VTonemapFunctionName Name_Hable)"
proof -
  let ?b = "PlaceboTonemapOpts_new
       (no_args\<lparr>arg_tone_map_function := Some Fn_Clip,
                arg_tone_map_function_s := Some Name_Hable\<rparr>)"
  have f: "tone_map_function ?b = Some Fn_Clip"
    by (simp add: PlaceboTonemapOpts_new_def no_args_def)
  have s: "tone_map_function_s ?b = Some Name_Hable"
    by (simp add: PlaceboTonemapOpts_new_def no_args_def)
  show ?thesis using f s vsplacebo_dict_both_tone_map_forms [OF f s] by simp
qed

section \<open>Colour space predicates\<close>

text \<open>
  C5: for every options value, whichever of the four colour spaces its fields hold,
  \<open>is_dovi_src\<close> is true exactly when the source colour space is \<open>DOVI\<close>,
  \<open>is_hdr10_src\<close> exactly when it is \<open>HDR10\<close>, and \<open>is_sdr_target\<close> exactly when the
  target colour space is \<open>SDR\<close>.
\<close>

theorem colorspace_predicates:
  "is_dovi_src b = (source_colorspace b = DOVI)
   \<and> is_hdr10_src b = (source_colorspace b = HDR10)
   \<and> is_sdr_target b = (target_colorspace b = SDR)"
proof -
  have "is_dovi_src b = (source_colorspace b = DOVI)"
    by (cases "source_colorspace b") (simp_all add: is_dovi_src_def)
  moreover have "is_hdr10_src b = (source_colorspace b = HDR10)"
    by (cases "source_colorspace b") (simp_all add: is_hdr10_src_def)
  moreover have "is_sdr_target b = (target_colorspace b = SDR)"
    by (cases "target_colorspace b") (simp_all add: is_sdr_target_def)
  ultimately show ?thesis by simp
qed

end
